theory Spec2Isabelle
  imports Main "HOL-Library.Word"
begin

section \<open>Values of the Python runtime\<close>

text \<open>
  A Python \<open>str\<close> is a sequence of Unicode code points and \<open>len\<close> counts code points,
  so a \<open>str\<close> is a list of code points. A \<open>bytes\<close> value is a list of octets.
  Python integers are unbounded: \<open>int\<close>.
\<close>

type_synonym str = "nat list"
type_synonym byte = "8 word"
type_synonym bytes = "byte list"

text \<open>An ASCII literal of the source, as a \<open>str\<close>.\<close>

definition lit :: "string \<Rightarrow> str" where
  "lit s = map of_char s"

text \<open>\<open>s * n\<close> on a \<open>str\<close>: \<open>n\<close> copies of \<open>s\<close>, none when \<open>n\<close> is zero or negative.\<close>

definition str_times :: "str \<Rightarrow> int \<Rightarrow> str" where
  "str_times s n = concat (replicate (nat n) s)"

section \<open>Exceptions\<close>

text \<open>
  Every \<open>raise\<close> of the source and of the libraries it calls is a value. A handler returns
  \<open>exn + 'a\<close>, with \<open>Inl\<close> the exception that leaves it. \<open>HTTPException\<close> carries the status
  code and the detail text. \<open>RequestValidationError\<close> is the rejection of a request body by
  its pydantic model, before the handler runs. \<open>StorageError\<close> is raised nowhere in the
  source: it is the escalation the specification names, used only by the
  specification's insert with retry.
\<close>

datatype exn =
    HTTPException nat string
  | RequestValidationError
  | IntegrityError
  | UnicodeEncodeError
  | UnicodeDecodeError
  | InvalidTag
  | ValueError
  | SystemExit string
  | StorageError

section \<open>UTF-8\<close>

text \<open>
  \<open>s.encode("utf-8")\<close> and \<open>b.decode("utf-8")\<close> of the interpreter. Encoding raises on a
  surrogate code point; decoding is strict: it accepts the well-formed byte sequences of
  the Unicode standard only (no overlong form, no surrogate, nothing above U+10FFFF).
\<close>

definition is_scalar :: "nat \<Rightarrow> bool" where
  "is_scalar c \<longleftrightarrow> c < 0x110000 \<and> \<not> (0xD800 \<le> c \<and> c \<le> 0xDFFF)"

definition utf8_char :: "nat \<Rightarrow> nat list" where
  "utf8_char c =
     (if c < 0x80 then [c]
      else if c < 0x800 then [0xC0 + c div 64, 0x80 + c mod 64]
      else if c < 0x10000 then [0xE0 + c div 4096, 0x80 + c div 64 mod 64, 0x80 + c mod 64]
      else [0xF0 + c div 262144, 0x80 + c div 4096 mod 64, 0x80 + c div 64 mod 64,
            0x80 + c mod 64])"

definition encode_utf8 :: "str \<Rightarrow> exn + bytes" where
  "encode_utf8 s =
     (if list_all is_scalar s then Inr (map of_nat (concat (map utf8_char s)))
      else Inl UnicodeEncodeError)"

definition cont :: "nat \<Rightarrow> bool" where
  "cont b \<longleftrightarrow> 0x80 \<le> b \<and> b \<le> 0xBF"

fun utf8_dec :: "nat list \<Rightarrow> str option" where
  "utf8_dec [] = Some []"
| "utf8_dec (b0 # bs) =
     (if b0 < 0x80 then map_option ((#) b0) (utf8_dec bs)
      else if 0xC2 \<le> b0 \<and> b0 \<le> 0xDF then
        (case bs of
           b1 # r \<Rightarrow>
             if cont b1
             then map_option ((#) ((b0 - 0xC0) * 64 + (b1 - 0x80))) (utf8_dec r)
             else None
         | _ \<Rightarrow> None)
      else if 0xE0 \<le> b0 \<and> b0 \<le> 0xEF then
        (case bs of
           b1 # b2 # r \<Rightarrow>
             if (if b0 = 0xE0 then 0xA0 \<le> b1 \<and> b1 \<le> 0xBF
                 else if b0 = 0xED then 0x80 \<le> b1 \<and> b1 \<le> 0x9F
                 else cont b1) \<and> cont b2
             then map_option
                    ((#) ((b0 - 0xE0) * 4096 + (b1 - 0x80) * 64 + (b2 - 0x80))) (utf8_dec r)
             else None
         | _ \<Rightarrow> None)
      else if 0xF0 \<le> b0 \<and> b0 \<le> 0xF4 then
        (case bs of
           b1 # b2 # b3 # r \<Rightarrow>
             if (if b0 = 0xF0 then 0x90 \<le> b1 \<and> b1 \<le> 0xBF
                 else if b0 = 0xF4 then 0x80 \<le> b1 \<and> b1 \<le> 0x8F
                 else cont b1) \<and> cont b2 \<and> cont b3
             then map_option
                    ((#) ((b0 - 0xF0) * 262144 + (b1 - 0x80) * 4096 + (b2 - 0x80) * 64
                          + (b3 - 0x80))) (utf8_dec r)
             else None
         | _ \<Rightarrow> None)
      else None)"

definition decode_utf8 :: "bytes \<Rightarrow> exn + str" where
  "decode_utf8 b =
     (case utf8_dec (map unat b) of None \<Rightarrow> Inl UnicodeDecodeError | Some s \<Rightarrow> Inr s)"

section \<open>The platform: Unicode database and AES-GCM\<close>

text \<open>
  Two parts of the platform are not code of the service and are taken as parameters:
  the Unicode database behind \<open>str.isdigit\<close> (which code points are digits), and the
  AES-GCM implementation of the \<open>cryptography\<close> package. \<open>AESGCM_init P key\<close> is the
  exception that the constructor \<open>AESGCM(key)\<close> raises, if it raises one.
  \<open>AESGCM_encrypt P key nonce data aad\<close> stands for the call \<open>encrypt(nonce, data, aad)\<close> on
  the object built from \<open>key\<close>; likewise \<open>AESGCM_decrypt\<close>.
\<close>

record platform =
  unicode_digit :: "nat \<Rightarrow> bool"
  AESGCM_init :: "bytes \<Rightarrow> exn option"
  AESGCM_encrypt :: "bytes \<Rightarrow> bytes \<Rightarrow> bytes \<Rightarrow> bytes option \<Rightarrow> exn + bytes"
  AESGCM_decrypt :: "bytes \<Rightarrow> bytes \<Rightarrow> bytes \<Rightarrow> bytes option \<Rightarrow> exn + bytes"

text \<open>\<open>s.isdigit()\<close>: every character is a digit and there is at least one character.\<close>

definition isdigit :: "platform \<Rightarrow> str \<Rightarrow> bool" where
  "isdigit P s \<longleftrightarrow> s \<noteq> [] \<and> list_all (unicode_digit P) s"

text \<open>
  What the service relies on: a digit is a Unicode scalar value; the constructor accepts a
  key of 16, 24 or 32 bytes; and under such a key and a 12-byte nonce, with no associated
  data, encryption succeeds and decryption of its output under the same key and nonce
  gives the plaintext back.
\<close>

definition platform_ok :: "platform \<Rightarrow> bool" where
  "platform_ok P \<longleftrightarrow>
     (\<forall>c. unicode_digit P c \<longrightarrow> is_scalar c) \<and>
     (\<forall>key. length key \<in> {16, 24, 32} \<longrightarrow> AESGCM_init P key = None) \<and>
     (\<forall>key nce data. length key \<in> {16, 24, 32} \<and> length nce = 12 \<longrightarrow>
        (\<exists>ct. AESGCM_encrypt P key nce data None = Inr ct
              \<and> AESGCM_decrypt P key nce ct None = Inr data))"

section \<open>Configuration at start-up\<close>

text \<open>
  \<^verbatim>\<open>MASTER_KEY_HEX = os.getenv("MASTER_KEY_HEX")
  if not MASTER_KEY_HEX: raise SystemExit(...)
  try: MASTER_KEY = binascii.unhexlify(MASTER_KEY_HEX)
  except Exception as e: raise SystemExit(...)
  if len(MASTER_KEY) not in (16, 24, 32): raise SystemExit(...)\<close>
  The second message ends with the text of the library's exception, which is left out.
\<close>

definition hex_val :: "nat \<Rightarrow> nat option" where
  "hex_val c =
     (if 48 \<le> c \<and> c \<le> 57 then Some (c - 48)
      else if 97 \<le> c \<and> c \<le> 102 then Some (c - 87)
      else if 65 \<le> c \<and> c \<le> 70 then Some (c - 55)
      else None)"

fun unhexlify :: "str \<Rightarrow> bytes option" where
  "unhexlify [] = Some []"
| "unhexlify [a] = None"
| "unhexlify (a # b # r) =
     (case (hex_val a, hex_val b) of
        (Some x, Some y) \<Rightarrow> map_option ((#) (of_nat (16 * x + y))) (unhexlify r)
      | _ \<Rightarrow> None)"

definition load_MASTER_KEY :: "str option \<Rightarrow> exn + bytes" where
  "load_MASTER_KEY MASTER_KEY_HEX =
     (case MASTER_KEY_HEX of
        None \<Rightarrow> Inl (SystemExit ''MASTER_KEY_HEX must be set in .env'')
      | Some h \<Rightarrow>
          if h = [] then Inl (SystemExit ''MASTER_KEY_HEX must be set in .env'')
          else (case unhexlify h of
                  None \<Rightarrow> Inl (SystemExit ''Invalid MASTER_KEY_HEX (must be hex). Error: '')
                | Some k \<Rightarrow>
                    if length k \<notin> {16, 24, 32}
                    then Inl (SystemExit ''MASTER_KEY must be 16, 24, or 32 bytes for AES-GCM'')
                    else Inr k))"

record config =
  MASTER_KEY :: bytes
  ADMIN_API_KEY :: str

section \<open>State: the tokens table, the entropy source, the clock\<close>

text \<open>
  A row of table \<open>tokens\<close>; column \<open>token\<close> is the primary key, so the table is a map from
  token to row. The operating system's random source is the sequence of bytes it will
  deliver next. \<open>utcnow\<close> is the reading of \<open>datetime.utcnow().isoformat()\<close>.
\<close>

record token_row =
  r_token :: str
  r_ciphertext :: bytes
  r_nonce :: bytes
  r_pan_length :: int
  r_first6 :: str
  r_last4 :: str
  r_created_at :: str

record world =
  tokens :: "str \<rightharpoonup> token_row"
  entropy :: "nat \<Rightarrow> byte"
  utcnow :: str

section \<open>Module \<open>secrets\<close>\<close>

definition token_bytes :: "nat \<Rightarrow> world \<Rightarrow> bytes \<times> world" where
  "token_bytes n w = (map (entropy w) [0..<n], w\<lparr>entropy := (\<lambda>i. entropy w (i + n))\<rparr>)"

definition b64_alphabet :: string where
  "b64_alphabet = ''ABCDEFGHIJKLMNOPQRSTUVWXYZabcdefghijklmnopqrstuvwxyz0123456789-_''"

fun urlsafe_b64encode :: "nat list \<Rightarrow> string" where
  "urlsafe_b64encode [] = []"
| "urlsafe_b64encode [a] =
     [b64_alphabet ! (a div 4), b64_alphabet ! (a mod 4 * 16), CHR ''='', CHR ''='']"
| "urlsafe_b64encode [a, b] =
     [b64_alphabet ! (a div 4), b64_alphabet ! (a mod 4 * 16 + b div 16),
      b64_alphabet ! (b mod 16 * 4), CHR ''='']"
| "urlsafe_b64encode (a # b # c # r) =
     [b64_alphabet ! (a div 4), b64_alphabet ! (a mod 4 * 16 + b div 16),
      b64_alphabet ! (b mod 16 * 4 + c div 64), b64_alphabet ! (c mod 64)]
     @ urlsafe_b64encode r"

definition rstrip_eq :: "string \<Rightarrow> string" where
  "rstrip_eq s = rev (dropWhile (\<lambda>c. c = CHR ''='') (rev s))"

text \<open>
  \<^verbatim>\<open>def token_urlsafe(nbytes):
      tok = token_bytes(nbytes)
      return base64.urlsafe_b64encode(tok).rstrip(b'=').decode('ascii')\<close>
\<close>

definition token_urlsafe :: "nat \<Rightarrow> world \<Rightarrow> str \<times> world" where
  "token_urlsafe nbytes w =
     (let (tok, w') = token_bytes nbytes w
      in (lit (rstrip_eq (urlsafe_b64encode (map unat tok))), w'))"

section \<open>Request and response models\<close>

text \<open>
  \<open>EncryptRequest\<close>: \<open>pan: str = Field(..., min_length=12, max_length=19)\<close>. The
  validation of a \<open>str\<close> field also refuses a string that holds a lone surrogate.
\<close>

definition EncryptRequest :: "str \<Rightarrow> exn + str" where
  "EncryptRequest pan =
     (if 12 \<le> length pan \<and> length pan \<le> 19 \<and> list_all is_scalar pan then Inr pan
      else Inl RequestValidationError)"

record EncryptResponse =
  er_token :: str
  er_masked_pan :: str

record DecryptResponse =
  dr_pan :: str
  dr_masked_pan :: str

record TokenMetadata =
  tm_token :: str
  tm_masked_pan :: str
  tm_created_at :: str

section \<open>Crypto helpers\<close>

text \<open>
  \<^verbatim>\<open>def encrypt_pan_bytes(pan_bytes):
      aes = AESGCM(MASTER_KEY)
      nonce = secrets.token_bytes(12)
      ciphertext = aes.encrypt(nonce, pan_bytes, None)
      return nonce, ciphertext\<close>
  The cipher object is built first: when the constructor raises, nothing has been drawn
  from the random source.
\<close>

definition encrypt_pan_bytes ::
  "platform \<Rightarrow> config \<Rightarrow> bytes \<Rightarrow> world \<Rightarrow> (exn + bytes \<times> bytes) \<times> world" where
  "encrypt_pan_bytes P cfg pan_bytes w =
     (case AESGCM_init P (MASTER_KEY cfg) of
        Some e \<Rightarrow> (Inl e, w)
      | None \<Rightarrow>
          (let (nce, w') = token_bytes 12 w
           in case AESGCM_encrypt P (MASTER_KEY cfg) nce pan_bytes None of
                Inl e \<Rightarrow> (Inl e, w')
              | Inr ct \<Rightarrow> (Inr (nce, ct), w')))"

text \<open>
  \<^verbatim>\<open>def decrypt_pan_bytes(nonce, ciphertext):
      aes = AESGCM(MASTER_KEY)
      return aes.decrypt(nonce, ciphertext, None)\<close>
\<close>

definition decrypt_pan_bytes :: "platform \<Rightarrow> config \<Rightarrow> bytes \<Rightarrow> bytes \<Rightarrow> exn + bytes" where
  "decrypt_pan_bytes P cfg nce ct =
     (case AESGCM_init P (MASTER_KEY cfg) of
        Some e \<Rightarrow> Inl e
      | None \<Rightarrow> AESGCM_decrypt P (MASTER_KEY cfg) nce ct None)"

section \<open>PAN masking\<close>

text \<open>
  \<^verbatim>\<open>def mask_pan(first6, last4, length):
      middle = length - len(first6) - len(last4)
      return first6 + ("*" * middle) + last4\<close>
\<close>

definition mask_pan :: "str \<Rightarrow> str \<Rightarrow> int \<Rightarrow> str" where
  "mask_pan first6 last4 len =
     (let middle = len - int (length first6) - int (length last4)
      in first6 @ str_times (lit ''*'') middle @ last4)"

section \<open>Database helpers\<close>

text \<open>
  \<open>save_token\<close>: the \<open>INSERT\<close> raises \<open>sqlite3.IntegrityError\<close> when the primary key is
  already there and leaves the table as it was; otherwise the row is added and committed.
\<close>

definition save_token ::
  "str \<Rightarrow> bytes \<Rightarrow> bytes \<Rightarrow> int \<Rightarrow> str \<Rightarrow> str \<Rightarrow> world \<Rightarrow> (exn + unit) \<times> world" where
  "save_token tok nce ct pan_len f6 l4 w =
     (case tokens w tok of
        Some _ \<Rightarrow> (Inl IntegrityError, w)
      | None \<Rightarrow>
          (Inr (),
           w\<lparr>tokens := (tokens w)(tok \<mapsto>
                \<lparr>r_token = tok, r_ciphertext = ct, r_nonce = nce, r_pan_length = pan_len,
                 r_first6 = f6, r_last4 = l4, r_created_at = utcnow w\<rparr>)\<rparr>))"

definition get_token_record :: "world \<Rightarrow> str \<Rightarrow> token_row option" where
  "get_token_record w tok = tokens w tok"

section \<open>Admin authentication\<close>

definition require_admin :: "config \<Rightarrow> str option \<Rightarrow> exn + bool" where
  "require_admin cfg api_key =
     (if api_key \<noteq> Some (ADMIN_API_KEY cfg)
      then Inl (HTTPException 401 ''Invalid admin API key.'')
      else Inr True)"

section \<open>API endpoints\<close>

text \<open>The handler of \<open>POST /encrypt\<close>, on a request that passed its model.\<close>

definition encrypt ::
  "platform \<Rightarrow> config \<Rightarrow> str \<Rightarrow> world \<Rightarrow> (exn + EncryptResponse) \<times> world" where
  "encrypt P cfg pan w =
     (if \<not> isdigit P pan then (Inl (HTTPException 400 ''PAN must contain only digits''), w)
      else case encode_utf8 pan of
        Inl e \<Rightarrow> (Inl e, w)
      | Inr pan_bytes \<Rightarrow>
         (case encrypt_pan_bytes P cfg pan_bytes w of
            (Inl e, w1) \<Rightarrow> (Inl e, w1)
          | (Inr (nce, ct), w1) \<Rightarrow>
             (let (tok, w2) = token_urlsafe 24 w1;
                  first6 = take 6 pan;
                  last4 = drop (length pan - 4) pan;
                  pan_length = int (length pan)
              in case save_token tok nce ct pan_length first6 last4 w2 of
                   (Inl e, w3) \<Rightarrow> (Inl e, w3)
                 | (Inr _, w3) \<Rightarrow>
                     (Inr \<lparr>er_token = tok, er_masked_pan = mask_pan first6 last4 pan_length\<rparr>,
                      w3))))"

text \<open>\<open>POST /encrypt\<close> as the framework runs it: the body is validated, then handled.\<close>

definition post_encrypt ::
  "platform \<Rightarrow> config \<Rightarrow> str \<Rightarrow> world \<Rightarrow> (exn + EncryptResponse) \<times> world" where
  "post_encrypt P cfg pan w =
     (case EncryptRequest pan of Inl e \<Rightarrow> (Inl e, w) | Inr p \<Rightarrow> encrypt P cfg p w)"

text \<open>The handler of \<open>POST /decrypt\<close>; it reads the state and changes nothing.\<close>

definition decrypt :: "platform \<Rightarrow> config \<Rightarrow> str \<Rightarrow> world \<Rightarrow> exn + DecryptResponse" where
  "decrypt P cfg tok w =
     (case get_token_record w tok of
        None \<Rightarrow> Inl (HTTPException 404 ''Token not found'')
      | Some record \<Rightarrow>
         (case (case decrypt_pan_bytes P cfg (r_nonce record) (r_ciphertext record) of
                  Inl e \<Rightarrow> Inl e
                | Inr pan_bytes \<Rightarrow> decode_utf8 pan_bytes) of
            Inl _ \<Rightarrow> Inl (HTTPException 500 ''Decryption failed'')
          | Inr pan \<Rightarrow>
              Inr \<lparr>dr_pan = pan,
                   dr_masked_pan =
                     mask_pan (r_first6 record) (r_last4 record) (r_pan_length record)\<rparr>))"

text \<open>\<open>POST /decrypt\<close> as the framework runs it: \<open>Depends(require_admin)\<close> comes first.\<close>

definition post_decrypt ::
  "platform \<Rightarrow> config \<Rightarrow> str option \<Rightarrow> str \<Rightarrow> world \<Rightarrow> exn + DecryptResponse" where
  "post_decrypt P cfg api_key tok w =
     (case require_admin cfg api_key of Inl e \<Rightarrow> Inl e | Inr _ \<Rightarrow> decrypt P cfg tok w)"

text \<open>The handler of \<open>GET /token/{token}\<close>. It takes neither the key nor the cipher.\<close>

definition get_metadata :: "str \<Rightarrow> world \<Rightarrow> exn + TokenMetadata" where
  "get_metadata tok w =
     (case get_token_record w tok of
        None \<Rightarrow> Inl (HTTPException 404 ''Token not found'')
      | Some record \<Rightarrow>
          Inr \<lparr>tm_token = tok,
               tm_masked_pan =
                 mask_pan (r_first6 record) (r_last4 record) (r_pan_length record),
               tm_created_at = r_created_at record\<rparr>)"

section \<open>The specification's insert with retry\<close>

text \<open>
  For comparison with \<open>encrypt\<close> only, steps 4 and 5 of the specification's \<open>Tokenize\<close>
  as it words them: generate a token and insert; on a duplicate token generate another
  one and insert again, for a bounded number of attempts, then fail with \<open>StorageError\<close>.
  The other steps are those of \<open>encrypt\<close>.
\<close>

fun insert_retrying ::
  "nat \<Rightarrow> bytes \<Rightarrow> bytes \<Rightarrow> int \<Rightarrow> str \<Rightarrow> str \<Rightarrow> world \<Rightarrow> (exn + str) \<times> world" where
  "insert_retrying 0 nce ct pan_len f6 l4 w = (Inl StorageError, w)"
| "insert_retrying (Suc k) nce ct pan_len f6 l4 w =
     (let (tok, w1) = token_urlsafe 24 w
      in case save_token tok nce ct pan_len f6 l4 w1 of
           (Inr _, w2) \<Rightarrow> (Inr tok, w2)
         | (Inl _, w2) \<Rightarrow> insert_retrying k nce ct pan_len f6 l4 w2)"

definition Tokenize_spec ::
  "nat \<Rightarrow> platform \<Rightarrow> config \<Rightarrow> str \<Rightarrow> world \<Rightarrow> (exn + EncryptResponse) \<times> world" where
  "Tokenize_spec attempts P cfg pan w =
     (if \<not> isdigit P pan then (Inl (HTTPException 400 ''PAN must contain only digits''), w)
      else case encode_utf8 pan of
        Inl e \<Rightarrow> (Inl e, w)
      | Inr pan_bytes \<Rightarrow>
         (case encrypt_pan_bytes P cfg pan_bytes w of
            (Inl e, w1) \<Rightarrow> (Inl e, w1)
          | (Inr (nce, ct), w1) \<Rightarrow>
             (let first6 = take 6 pan;
                  last4 = drop (length pan - 4) pan;
                  pan_length = int (length pan)
              in case insert_retrying attempts nce ct pan_length first6 last4 w1 of
                   (Inl e, w3) \<Rightarrow> (Inl e, w3)
                 | (Inr tok, w3) \<Rightarrow>
                     (Inr \<lparr>er_token = tok, er_masked_pan = mask_pan first6 last4 pan_length\<rparr>,
                      w3))))"

section \<open>A test double of the platform, and test fixtures\<close>

text \<open>
  A stand-in for the platform on which the service can be run by evaluation. Its digit
  table is a part of the table of the interpreter's Unicode database: the decimal digits
  of ASCII, the superscript digits U+00B2, U+00B3 and U+00B9, and the Arabic-Indic digits
  U+0660 to U+0669, all of which \<open>str.isdigit\<close> accepts. Its cipher appends a checksum of
  key, nonce and data and checks it on decryption; the constructor checks the size of the
  key and the calls check the size of the nonce, as the library does.
\<close>

definition digit_table :: "nat \<Rightarrow> bool" where
  "digit_table c \<longleftrightarrow>
     (0x30 \<le> c \<and> c \<le> 0x39) \<or> c = 0xB2 \<or> c = 0xB3 \<or> c = 0xB9 \<or> (0x660 \<le> c \<and> c \<le> 0x669)"

definition stub_tag :: "bytes \<Rightarrow> bytes \<Rightarrow> bytes \<Rightarrow> byte" where
  "stub_tag key nce data = sum_list key + sum_list nce + sum_list data"

definition stub_init :: "bytes \<Rightarrow> exn option" where
  "stub_init key = (if length key \<in> {16, 24, 32} then None else Some ValueError)"

definition stub_encrypt :: "bytes \<Rightarrow> bytes \<Rightarrow> bytes \<Rightarrow> bytes option \<Rightarrow> exn + bytes" where
  "stub_encrypt key nce data aad =
     (if length nce < 8 \<or> 128 < length nce then Inl ValueError
      else Inr (data @ [stub_tag key nce data]))"

definition stub_decrypt :: "bytes \<Rightarrow> bytes \<Rightarrow> bytes \<Rightarrow> bytes option \<Rightarrow> exn + bytes" where
  "stub_decrypt key nce ct aad =
     (if length nce < 8 \<or> 128 < length nce then Inl ValueError
      else if ct = [] then Inl InvalidTag
      else if last ct = stub_tag key nce (butlast ct) then Inr (butlast ct)
      else Inl InvalidTag)"

definition stub_platform :: platform where
  "stub_platform =
     \<lparr>unicode_digit = digit_table, AESGCM_init = stub_init,
      AESGCM_encrypt = stub_encrypt, AESGCM_decrypt = stub_decrypt\<rparr>"

definition test_config :: config where
  "test_config = \<lparr>MASTER_KEY = replicate 32 1, ADMIN_API_KEY = lit ''admin-placeholder''\<rparr>"

text \<open>An empty table; the entropy source delivers the bytes 0, 1, 2, ...\<close>

definition empty_world :: world where
  "empty_world =
     \<lparr>tokens = Map.empty, entropy = of_nat, utcnow = lit ''2024-01-01T00:00:00''\<rparr>"

text \<open>
  A row for the PAN 4111111111111111 as \<open>stub_platform\<close> encrypts it under \<open>test_config\<close>
  with the nonce 0, 1, ..., 11; the same row with one byte of the ciphertext changed; and
  the row of the PAN 4111112222221111, which has the same first six and last four digits.
\<close>

definition sample_row :: token_row where
  "sample_row =
     \<lparr>r_token = lit ''tok-1'',
      r_ciphertext = map of_nat [52, 49, 49, 49, 49, 49, 49, 49, 49, 49, 49, 49, 49, 49, 49, 49, 117],
      r_nonce = map of_nat [0, 1, 2, 3, 4, 5, 6, 7, 8, 9, 10, 11],
      r_pan_length = 16, r_first6 = lit ''411111'', r_last4 = lit ''1111'',
      r_created_at = lit ''2024-01-01T00:00:00''\<rparr>"

definition tampered_row :: token_row where
  "tampered_row =
     sample_row\<lparr>r_ciphertext :=
       map of_nat [52, 49, 49, 49, 49, 49, 50, 49, 49, 49, 49, 49, 49, 49, 49, 49, 117]\<rparr>"

definition other_row :: token_row where
  "other_row =
     sample_row\<lparr>r_ciphertext :=
       map of_nat [52, 49, 49, 49, 49, 49, 50, 50, 50, 50, 50, 50, 49, 49, 49, 49, 123]\<rparr>"

definition world_with :: "token_row \<Rightarrow> world" where
  "world_with r = empty_world\<lparr>tokens := [lit ''tok-1'' \<mapsto> r]\<rparr>"

text \<open>
  A table that already holds the token which the entropy of \<open>empty_world\<close> yields for
  the next request: bytes 12 to 35, after the 12 bytes of the nonce.
\<close>

definition collision_world :: world where
  "collision_world =
     empty_world\<lparr>tokens := [lit ''DA0ODxAREhMUFRYXGBkaGxwdHh8gISIj'' \<mapsto> sample_row]\<rparr>"

section \<open>UTF-8 decoding inverts encoding\<close>

lemma utf8_dec_two:
  "0xC2 \<le> b0 \<Longrightarrow> b0 \<le> 0xDF \<Longrightarrow> cont b1 \<Longrightarrow>
   utf8_dec (b0 # b1 # bs) = map_option ((#) ((b0 - 0xC0) * 64 + (b1 - 0x80))) (utf8_dec bs)"
  by simp

lemma utf8_dec_three:
  "0xE0 \<le> b0 \<Longrightarrow> b0 \<le> 0xEF \<Longrightarrow> cont b1 \<Longrightarrow> cont b2 \<Longrightarrow>
   (b0 = 0xE0 \<longrightarrow> 0xA0 \<le> b1) \<Longrightarrow> (b0 = 0xED \<longrightarrow> b1 \<le> 0x9F) \<Longrightarrow>
   utf8_dec (b0 # b1 # b2 # bs) =
     map_option ((#) ((b0 - 0xE0) * 4096 + (b1 - 0x80) * 64 + (b2 - 0x80))) (utf8_dec bs)"
  by (simp add: cont_def)

lemma utf8_dec_four:
  "0xF0 \<le> b0 \<Longrightarrow> b0 \<le> 0xF4 \<Longrightarrow> cont b1 \<Longrightarrow> cont b2 \<Longrightarrow> cont b3 \<Longrightarrow>
   (b0 = 0xF0 \<longrightarrow> 0x90 \<le> b1) \<Longrightarrow> (b0 = 0xF4 \<longrightarrow> b1 \<le> 0x8F) \<Longrightarrow>
   utf8_dec (b0 # b1 # b2 # b3 # bs) =
     map_option ((#) ((b0 - 0xF0) * 262144 + (b1 - 0x80) * 4096 + (b2 - 0x80) * 64 + (b3 - 0x80)))
       (utf8_dec bs)"
  by (simp add: cont_def)

lemma comb3:
  "64 * A + B = Q \<Longrightarrow> 64 * Q + R = (c::nat) \<Longrightarrow>
   (224 + A - 224) * 4096 + (128 + B - 128) * 64 + (128 + R - 128) = c"
  by simp

lemma comb4:
  "64 * A + B = P \<Longrightarrow> 64 * P + C = Q \<Longrightarrow> 64 * Q + R = (c::nat) \<Longrightarrow>
   (240 + A - 240) * 262144 + (128 + B - 128) * 4096 + (128 + C - 128) * 64 + (128 + R - 128) = c"
  by simp

lemma utf8_dec_1: "c < 0x80 \<Longrightarrow> utf8_dec (utf8_char c @ bs) = map_option ((#) c) (utf8_dec bs)"
  by (simp add: utf8_char_def)


lemma utf8_dec_2:
  assumes "0x80 \<le> c" "c < 0x800"
  shows "utf8_dec (utf8_char c @ bs) = map_option ((#) c) (utf8_dec bs)"
proof -
  have e: "utf8_char c = [0xC0 + c div 64, 0x80 + c mod 64]"
    using assms by (simp add: utf8_char_def)
  have a: "0xC2 \<le> 0xC0 + c div 64" "0xC0 + c div 64 \<le> 0xDF" "cont (0x80 + c mod 64)"
    using assms unfolding cont_def by linarith+
  have b: "(0xC0 + c div 64 - 0xC0) * 64 + (0x80 + c mod 64 - 0x80) = c" by simp
  have "utf8_dec ([0xC0 + c div 64, 0x80 + c mod 64] @ bs) = map_option ((#) c) (utf8_dec bs)"
    using utf8_dec_two [OF a, of bs] by (simp only: b append.simps)
  then show ?thesis by (simp only: e)
qed

lemma utf8_dec_3:
  assumes "0x800 \<le> c" "c < 0x10000" "\<not> (0xD800 \<le> c \<and> c \<le> 0xDFFF)"
  shows "utf8_dec (utf8_char c @ bs) = map_option ((#) c) (utf8_dec bs)"
proof -
  have e: "utf8_char c = [0xE0 + c div 4096, 0x80 + c div 64 mod 64, 0x80 + c mod 64]"
    using assms by (simp add: utf8_char_def)
  have a: "0xE0 \<le> 0xE0 + c div 4096" "0xE0 + c div 4096 \<le> 0xEF"
       "cont (0x80 + c div 64 mod 64)" "cont (0x80 + c mod 64)"
       "0xE0 + c div 4096 = 0xE0 \<longrightarrow> 0xA0 \<le> 0x80 + c div 64 mod 64"
       "0xE0 + c div 4096 = 0xED \<longrightarrow> 0x80 + c div 64 mod 64 \<le> 0x9F"
  proof -
    have q: "c div 4096 = c div 64 div 64" by (simp add: div_mult2_eq)
    have r: "32 \<le> c div 64" "c div 64 < 1024" "\<not> (864 \<le> c div 64 \<and> c div 64 \<le> 895)"
      using assms by linarith+
    have m: "64 * (c div 64 div 64) + c div 64 mod 64 = c div 64" by simp
    show "0xE0 \<le> 0xE0 + c div 4096" "0xE0 + c div 4096 \<le> 0xEF"
       "cont (0x80 + c div 64 mod 64)" "cont (0x80 + c mod 64)"
       "0xE0 + c div 4096 = 0xE0 \<longrightarrow> 0xA0 \<le> 0x80 + c div 64 mod 64"
       "0xE0 + c div 4096 = 0xED \<longrightarrow> 0x80 + c div 64 mod 64 \<le> 0x9F"
      using r m unfolding cont_def q by (linarith | (intro impI, linarith))+
  qed
  have b: "(0xE0 + c div 4096 - 0xE0) * 4096 + (0x80 + c div 64 mod 64 - 0x80) * 64
           + (0x80 + c mod 64 - 0x80) = c"
  proof -
    have q: "c div 4096 = c div 64 div 64" by (simp add: div_mult2_eq)
    show ?thesis unfolding q
      using comb3 [of "c div 64 div 64" "c div 64 mod 64" "c div 64" "c mod 64" c] by simp
  qed
  have "utf8_dec ([0xE0 + c div 4096, 0x80 + c div 64 mod 64, 0x80 + c mod 64] @ bs)
        = map_option ((#) c) (utf8_dec bs)"
    using utf8_dec_three [OF a, of bs] by (simp only: b append.simps)
  then show ?thesis by (simp only: e)
qed

lemma utf8_dec_4:
  assumes "0x10000 \<le> c" "c < 0x110000"
  shows "utf8_dec (utf8_char c @ bs) = map_option ((#) c) (utf8_dec bs)"
proof -
  have e: "utf8_char c = [0xF0 + c div 262144, 0x80 + c div 4096 mod 64,
                          0x80 + c div 64 mod 64, 0x80 + c mod 64]"
    using assms by (simp add: utf8_char_def)
  have a: "0xF0 \<le> 0xF0 + c div 262144" "0xF0 + c div 262144 \<le> 0xF4"
       "cont (0x80 + c div 4096 mod 64)" "cont (0x80 + c div 64 mod 64)" "cont (0x80 + c mod 64)"
       "0xF0 + c div 262144 = 0xF0 \<longrightarrow> 0x90 \<le> 0x80 + c div 4096 mod 64"
       "0xF0 + c div 262144 = 0xF4 \<longrightarrow> 0x80 + c div 4096 mod 64 \<le> 0x8F"
  proof -
    have q: "c div 262144 = c div 4096 div 64" by (simp add: div_mult2_eq)
    have r: "16 \<le> c div 4096" "c div 4096 < 272" using assms by linarith+
    have m: "64 * (c div 4096 div 64) + c div 4096 mod 64 = c div 4096" by simp
    show "0xF0 \<le> 0xF0 + c div 262144" "0xF0 + c div 262144 \<le> 0xF4"
       "cont (0x80 + c div 4096 mod 64)" "cont (0x80 + c div 64 mod 64)" "cont (0x80 + c mod 64)"
       "0xF0 + c div 262144 = 0xF0 \<longrightarrow> 0x90 \<le> 0x80 + c div 4096 mod 64"
       "0xF0 + c div 262144 = 0xF4 \<longrightarrow> 0x80 + c div 4096 mod 64 \<le> 0x8F"
      using r m unfolding cont_def q by (linarith | (intro impI, linarith))+
  qed
  have b: "(0xF0 + c div 262144 - 0xF0) * 262144 + (0x80 + c div 4096 mod 64 - 0x80) * 4096
           + (0x80 + c div 64 mod 64 - 0x80) * 64 + (0x80 + c mod 64 - 0x80) = c"
  proof -
    have q: "c div 262144 = c div 64 div 64 div 64" "c div 4096 = c div 64 div 64"
      by (simp_all add: div_mult2_eq)
    show ?thesis unfolding q
      using comb4 [of "c div 64 div 64 div 64" "c div 64 div 64 mod 64" "c div 64 div 64"
                      "c div 64 mod 64" "c div 64" "c mod 64" c] by simp
  qed
  have "utf8_dec ([0xF0 + c div 262144, 0x80 + c div 4096 mod 64,
                   0x80 + c div 64 mod 64, 0x80 + c mod 64] @ bs)
        = map_option ((#) c) (utf8_dec bs)"
    using utf8_dec_four [OF a, of bs] by (simp only: b append.simps)
  then show ?thesis by (simp only: e)
qed

lemma utf8_dec_char:
  "is_scalar c \<Longrightarrow> utf8_dec (utf8_char c @ bs) = map_option ((#) c) (utf8_dec bs)"
  using utf8_dec_1 [of c bs] utf8_dec_2 [of c bs] utf8_dec_3 [of c bs] utf8_dec_4 [of c bs]
  unfolding is_scalar_def by linarith

lemma utf8_dec_encode:
  "list_all is_scalar s \<Longrightarrow> utf8_dec (concat (map utf8_char s)) = Some s"
  by (induction s) (simp_all add: utf8_dec_char)

lemma utf8_char_byte: "c < 0x110000 \<Longrightarrow> b \<in> set (utf8_char c) \<Longrightarrow> b < 256"
  unfolding utf8_char_def by (auto split: if_splits)

lemma unat_of_nat_byte: "b < 256 \<Longrightarrow> unat (of_nat b :: byte) = b"
  by (simp add: unat_of_nat)

lemma unat_of_nat_bytes:
  "\<forall>b \<in> set xs. b < 256 \<Longrightarrow> map unat (map of_nat xs :: bytes) = xs"
  by (induction xs) (simp_all add: unat_of_nat_byte)

lemma decode_encode_utf8:
  assumes "list_all is_scalar s"
  shows "\<exists>b. encode_utf8 s = Inr b \<and> decode_utf8 b = Inr s"
proof -
  have "\<forall>b \<in> set (concat (map utf8_char s)). b < 256"
    using assms utf8_char_byte by (auto simp: list_all_iff is_scalar_def)
  then have "map unat (map of_nat (concat (map utf8_char s)) :: bytes) = concat (map utf8_char s)"
    by (rule unat_of_nat_bytes)
  then show ?thesis using assms
    by (simp add: encode_utf8_def decode_utf8_def utf8_dec_encode)
qed

section \<open>The test double meets the platform contract\<close>

lemma platform_ok_stub: "platform_ok stub_platform"
  unfolding platform_ok_def stub_platform_def
  by (auto simp: digit_table_def is_scalar_def stub_init_def stub_encrypt_def stub_decrypt_def)

section \<open>The shape of a tokenization\<close>

lemma token_bytes_fst: "fst (token_bytes n w) = map (entropy w) [0..<n]"
  by (simp add: token_bytes_def)

lemma token_bytes_snd: "snd (token_bytes n w) = w\<lparr>entropy := (\<lambda>i. entropy w (i + n))\<rparr>"
  by (simp add: token_bytes_def)

lemma token_urlsafe_snd: "snd (token_urlsafe n w) = w\<lparr>entropy := (\<lambda>i. entropy w (i + n))\<rparr>"
  by (simp add: token_urlsafe_def token_bytes_def)

lemma isdigit_scalar: "platform_ok P \<Longrightarrow> isdigit P pan \<Longrightarrow> list_all is_scalar pan"
  by (auto simp: platform_ok_def isdigit_def list_all_iff)

lemma encrypt_pan_bytes_ok:
  assumes "platform_ok P" "length (MASTER_KEY cfg) \<in> {16, 24, 32}"
  shows "\<exists>ct. encrypt_pan_bytes P cfg pt w = (Inr (map (entropy w) [0..<12], ct), snd (token_bytes 12 w))
            \<and> AESGCM_decrypt P (MASTER_KEY cfg) (map (entropy w) [0..<12]) ct None = Inr pt"
proof -
  have "length (map (entropy w) [0..<12]) = 12" by simp
  with assms obtain ct where
    "AESGCM_encrypt P (MASTER_KEY cfg) (map (entropy w) [0..<12]) pt None = Inr ct"
    "AESGCM_decrypt P (MASTER_KEY cfg) (map (entropy w) [0..<12]) ct None = Inr pt"
    unfolding platform_ok_def by blast
  moreover from assms have "AESGCM_init P (MASTER_KEY cfg) = None"
    unfolding platform_ok_def by blast
  ultimately show ?thesis by (simp add: encrypt_pan_bytes_def token_bytes_def)
qed

lemma encrypt_shape:
  assumes "platform_ok P" "length (MASTER_KEY cfg) \<in> {16, 24, 32}" "isdigit P pan"
  shows "\<exists>pt ct. encode_utf8 pan = Inr pt \<and> decode_utf8 pt = Inr pan
           \<and> AESGCM_decrypt P (MASTER_KEY cfg) (map (entropy w) [0..<12]) ct None = Inr pt
           \<and> encrypt P cfg pan w =
               (let w1 = snd (token_bytes 12 w);
                    tok = fst (token_urlsafe 24 w1);
                    w2 = snd (token_urlsafe 24 w1)
                in case tokens w tok of
                     Some _ \<Rightarrow> (Inl IntegrityError, w2)
                   | None \<Rightarrow>
                      (Inr \<lparr>er_token = tok,
                            er_masked_pan = mask_pan (take 6 pan) (drop (length pan - 4) pan)
                                              (int (length pan))\<rparr>,
                       w2\<lparr>tokens := (tokens w)(tok \<mapsto>
                            \<lparr>r_token = tok, r_ciphertext = ct,
                             r_nonce = map (entropy w) [0..<12],
                             r_pan_length = int (length pan), r_first6 = take 6 pan,
                             r_last4 = drop (length pan - 4) pan,
                             r_created_at = utcnow w\<rparr>)\<rparr>))"
proof -
  from decode_encode_utf8 [OF isdigit_scalar [OF assms(1,3)]]
  obtain pt where pt: "encode_utf8 pan = Inr pt" "decode_utf8 pt = Inr pan" by blast
  from encrypt_pan_bytes_ok [OF assms(1,2), of pt w]
  obtain ct where ct:
    "encrypt_pan_bytes P cfg pt w = (Inr (map (entropy w) [0..<12], ct), snd (token_bytes 12 w))"
    "AESGCM_decrypt P (MASTER_KEY cfg) (map (entropy w) [0..<12]) ct None = Inr pt" by blast
  have "encrypt P cfg pan w =
               (let w1 = snd (token_bytes 12 w);
                    tok = fst (token_urlsafe 24 w1);
                    w2 = snd (token_urlsafe 24 w1)
                in case tokens w tok of
                     Some _ \<Rightarrow> (Inl IntegrityError, w2)
                   | None \<Rightarrow>
                      (Inr \<lparr>er_token = tok,
                            er_masked_pan = mask_pan (take 6 pan) (drop (length pan - 4) pan)
                                              (int (length pan))\<rparr>,
                       w2\<lparr>tokens := (tokens w)(tok \<mapsto>
                            \<lparr>r_token = tok, r_ciphertext = ct,
                             r_nonce = map (entropy w) [0..<12],
                             r_pan_length = int (length pan), r_first6 = take 6 pan,
                             r_last4 = drop (length pan - 4) pan,
                             r_created_at = utcnow w\<rparr>)\<rparr>))"
    using assms(3) pt(1) ct(1)
    by (simp add: encrypt_def save_token_def token_bytes_snd token_urlsafe_snd Let_def
          split_beta split: option.split)
  with pt ct(2) show ?thesis by blast
qed

section \<open>Properties of masking\<close>

lemma str_times_star: "str_times (lit ''*'') n = replicate (nat n) (of_char CHR ''*'')"
  by (induction "nat n" arbitrary: n) (simp_all add: str_times_def lit_def replicate_app_Cons_same)


text \<open>
  C2. Whenever the total length is at least the combined length of the two visible parts,
  masking returns the first part, then exactly the missing number of asterisks, then the
  last part: the output has the total length, starts with the first part, ends with the
  last part, and every position in between holds an asterisk.
\<close>

theorem mask_pan_well_formed:
  assumes "int (length first6) + int (length last4) \<le> len"
  shows "mask_pan first6 last4 len =
           first6 @ replicate (nat (len - int (length first6) - int (length last4))) (of_char CHR ''*'') @ last4
         \<and> int (length (mask_pan first6 last4 len)) = len
         \<and> take (length first6) (mask_pan first6 last4 len) = first6
         \<and> drop (length (mask_pan first6 last4 len) - length last4) (mask_pan first6 last4 len) = last4
         \<and> (\<forall>i. length first6 \<le> i \<and> i < length (mask_pan first6 last4 len) - length last4
                \<longrightarrow> mask_pan first6 last4 len ! i = of_char CHR ''*'')"
  using assms by (auto simp: mask_pan_def str_times_star nth_append)

theorem mask_pan_well_formed_witness:
  "int (length (lit ''411111'')) + int (length (lit ''1111'')) \<le> 16
   \<and> mask_pan (lit ''411111'') (lit ''1111'') 16 = lit ''411111******1111''
   \<and> mask_pan (take 6 (lit ''4111111111111111''))
        (drop (length (lit ''4111111111111111'') - 4) (lit ''4111111111111111''))
        (int (length (lit ''4111111111111111'')))
       = lit ''411111******1111''"
  using mask_pan_well_formed [of "lit ''411111''" "lit ''1111''" 16]
  by (simp add: lit_def eval_nat_numeral)

text \<open>
  C10. When the total length is smaller than the combined length of the two visible parts,
  masking still returns a value: the first part followed directly by the last part, with
  no asterisk. That output is strictly longer than the total length, so no middle length
  satisfies the length equation of the record.
\<close>

theorem mask_pan_short_total:
  assumes "len < int (length first6) + int (length last4)"
  shows "mask_pan first6 last4 len = first6 @ last4
         \<and> len < int (length (mask_pan first6 last4 len))
         \<and> (\<forall>middle::nat. len \<noteq> int (length first6) + int middle + int (length last4))"
  using assms by (auto simp: mask_pan_def str_times_def)

theorem mask_pan_short_total_witness:
  "(8::int) < int (length (lit ''411111'')) + int (length (lit ''1111''))
   \<and> mask_pan (lit ''411111'') (lit ''1111'') 8 = lit ''4111111111''
   \<and> (8::int) < int (length (mask_pan (lit ''411111'') (lit ''1111'') 8))"
  using mask_pan_short_total [of 8 "lit ''411111''" "lit ''1111''"]
  by (simp add: lit_def)

section \<open>Tokenize, then resolve\<close>

text \<open>
  C1. For every valid PAN (only digits, 12 to 19 of them), on a platform that meets its
  contract and under a key of valid size: a tokenization whose generated token is not yet
  in the table succeeds, and for every token a tokenization returns, the privileged
  resolution of that token in the resulting state returns the PAN itself, with the same
  masked form.
\<close>

theorem tokenize_resolve_roundtrip:
  assumes "platform_ok P" and "length (MASTER_KEY cfg) \<in> {16, 24, 32}"
    and "isdigit P pan" and "12 \<le> length pan" and "length pan \<le> 19"
  shows "(tokens w (fst (token_urlsafe 24 (snd (token_bytes 12 w)))) = None \<longrightarrow>
            (\<exists>resp w'. post_encrypt P cfg pan w = (Inr resp, w')))
       \<and> (\<forall>resp w'. post_encrypt P cfg pan w = (Inr resp, w') \<longrightarrow>
            post_decrypt P cfg (Some (ADMIN_API_KEY cfg)) (er_token resp) w'
              = Inr \<lparr>dr_pan = pan, dr_masked_pan = er_masked_pan resp\<rparr>)"
proof -
  from encrypt_shape [OF assms(1-3), of w] obtain pt ct where
    pt: "decode_utf8 pt = Inr pan"
    and ct: "AESGCM_decrypt P (MASTER_KEY cfg) (map (entropy w) [0..<12]) ct None = Inr pt"
    and e: "encrypt P cfg pan w =
               (let w1 = snd (token_bytes 12 w);
                    tok = fst (token_urlsafe 24 w1);
                    w2 = snd (token_urlsafe 24 w1)
                in case tokens w tok of
                     Some _ \<Rightarrow> (Inl IntegrityError, w2)
                   | None \<Rightarrow>
                      (Inr \<lparr>er_token = tok,
                            er_masked_pan = mask_pan (take 6 pan) (drop (length pan - 4) pan)
                                              (int (length pan))\<rparr>,
                       w2\<lparr>tokens := (tokens w)(tok \<mapsto>
                            \<lparr>r_token = tok, r_ciphertext = ct,
                             r_nonce = map (entropy w) [0..<12],
                             r_pan_length = int (length pan), r_first6 = take 6 pan,
                             r_last4 = drop (length pan - 4) pan,
                             r_created_at = utcnow w\<rparr>)\<rparr>))"
    by blast
  have p: "post_encrypt P cfg pan w = encrypt P cfg pan w"
    using assms(4,5) isdigit_scalar [OF assms(1,3)]
    by (simp add: post_encrypt_def EncryptRequest_def)
  have k: "AESGCM_init P (MASTER_KEY cfg) = None"
    using assms(1,2) unfolding platform_ok_def by blast
  show ?thesis
  proof (cases "tokens w (fst (token_urlsafe 24 (snd (token_bytes 12 w))))")
    case None
    then show ?thesis using pt ct
      by (auto simp: p e k Let_def post_decrypt_def require_admin_def decrypt_def
            get_token_record_def decrypt_pan_bytes_def)
  next
    case (Some r)
    then show ?thesis by (simp add: p e Let_def)
  qed
qed

theorem tokenize_resolve_roundtrip_witness:
  "platform_ok stub_platform \<and> length (MASTER_KEY test_config) \<in> {16, 24, 32}
   \<and> isdigit stub_platform (lit ''4111111111111111'')
   \<and> 12 \<le> length (lit ''4111111111111111'') \<and> length (lit ''4111111111111111'') \<le> 19
   \<and> (\<exists>resp w'. post_encrypt stub_platform test_config (lit ''4111111111111111'') empty_world
                   = (Inr resp, w')
         \<and> post_decrypt stub_platform test_config (Some (lit ''admin-placeholder''))
              (er_token resp) w'
            = Inr \<lparr>dr_pan = lit ''4111111111111111'', dr_masked_pan = er_masked_pan resp\<rparr>)"
proof -
  have h: "platform_ok stub_platform" "length (MASTER_KEY test_config) \<in> {16, 24, 32}"
    "isdigit stub_platform (lit ''4111111111111111'')"
    "12 \<le> length (lit ''4111111111111111'')" "length (lit ''4111111111111111'') \<le> 19"
    by (rule platform_ok_stub)
       (simp_all add: test_config_def isdigit_def stub_platform_def digit_table_def lit_def)
  have f: "tokens empty_world (fst (token_urlsafe 24 (snd (token_bytes 12 empty_world)))) = None"
    by (simp add: empty_world_def)
  have a: "ADMIN_API_KEY test_config = lit ''admin-placeholder''"
    by (simp add: test_config_def)
  show ?thesis
    using tokenize_resolve_roundtrip [OF h, of empty_world] h f unfolding a by blast
qed

section \<open>Rejected and accepted input\<close>

text \<open>
  A request that the request model or the handler's digit test refuses is answered with an
  error, and the state after the call is the state before it: no row is inserted, nothing
  is encrypted, no entropy is drawn.
\<close>

lemma refused_request_leaves_state:
  assumes "\<not> isdigit P pan \<or> length pan < 12 \<or> 19 < length pan \<or> \<not> list_all is_scalar pan"
  shows "snd (post_encrypt P cfg pan w) = w
       \<and> fst (post_encrypt P cfg pan w) =
           (if length pan < 12 \<or> 19 < length pan \<or> \<not> list_all is_scalar pan
            then Inl RequestValidationError
            else Inl (HTTPException 400 ''PAN must contain only digits''))"
  using assms by (auto simp: post_encrypt_def EncryptRequest_def encrypt_def)

lemma arabic_indic_facts:
  "isdigit stub_platform (replicate 12 0x661)"
  "12 \<le> length (replicate 12 (0x661::nat))" "length (replicate 12 (0x661::nat)) \<le> 19"
  "list_all is_scalar (replicate 12 0x661)"
  "\<not> list_all (\<lambda>c. 0x30 \<le> c \<and> c \<le> 0x39) (replicate 12 (0x661::nat))"
  by (simp_all add: isdigit_def stub_platform_def digit_table_def is_scalar_def list_all_iff)

lemma empty_world_token:
  "fst (token_urlsafe 24 (snd (token_bytes 12 empty_world)))
     = lit ''DA0ODxAREhMUFRYXGBkaGxwdHh8gISIj''"
  by (simp add: token_urlsafe_def token_bytes_def empty_world_def
        upt_rec b64_alphabet_def rstrip_eq_def lit_def)

text \<open>
  C3 does not hold of the code. The handler tests the PAN with \<open>str.isdigit\<close>, which
  accepts digits other than the decimal digits 0 to 9. A PAN of twelve Arabic-Indic digits
  ONE (U+0661) is not a string of decimal digits, yet the request is accepted: a token and
  a masked form are returned and a row is stored under the token.
\<close>

theorem non_decimal_digits_are_tokenized:
  "\<not> list_all (\<lambda>c. 0x30 \<le> c \<and> c \<le> 0x39) (replicate 12 (0x661::nat))
   \<and> fst (post_encrypt stub_platform test_config (replicate 12 0x661) empty_world)
       = Inr \<lparr>er_token = lit ''DA0ODxAREhMUFRYXGBkaGxwdHh8gISIj'',
              er_masked_pan = replicate 6 0x661 @ lit ''**'' @ replicate 4 0x661\<rparr>
   \<and> map_option r_first6
         (tokens (snd (post_encrypt stub_platform test_config (replicate 12 0x661) empty_world))
            (lit ''DA0ODxAREhMUFRYXGBkaGxwdHh8gISIj''))
       = Some (replicate 6 0x661)"
proof -
  have k: "platform_ok stub_platform" "length (MASTER_KEY test_config) \<in> {16, 24, 32}"
    by (rule platform_ok_stub) (simp add: test_config_def)
  have p: "post_encrypt stub_platform test_config (replicate 12 0x661) empty_world
           = encrypt stub_platform test_config (replicate 12 0x661) empty_world"
    using arabic_indic_facts(2-4) by (simp add: post_encrypt_def EncryptRequest_def)
  have f: "tokens empty_world (lit ''DA0ODxAREhMUFRYXGBkaGxwdHh8gISIj'') = None"
    by (simp add: empty_world_def)
  have m: "mask_pan (replicate 6 0x661) (replicate 4 0x661) 12
           = replicate 6 0x661 @ lit ''**'' @ replicate 4 0x661"
    by (simp add: mask_pan_def str_times_def lit_def eval_nat_numeral)
  from encrypt_shape [OF k arabic_indic_facts(1), of empty_world]
  show ?thesis
    unfolding p by (auto simp: Let_def empty_world_token f m arabic_indic_facts(5))
qed

section \<open>Unknown tokens\<close>

text \<open>
  C6. For a token that is not in the table, the privileged path and the metadata path both
  fail with the not-found error. That error is reported for absent tokens only, and it
  differs from the errors of a failed insert and of a failed decryption.
\<close>

theorem unknown_token_not_found:
  "(tokens w tok = None \<longrightarrow>
      decrypt P cfg tok w = Inl (HTTPException 404 ''Token not found'')
      \<and> post_decrypt P cfg (Some (ADMIN_API_KEY cfg)) tok w
          = Inl (HTTPException 404 ''Token not found'')
      \<and> get_metadata tok w = Inl (HTTPException 404 ''Token not found''))
   \<and> (tokens w tok \<noteq> None \<longrightarrow>
      decrypt P cfg tok w \<noteq> Inl (HTTPException 404 ''Token not found'')
      \<and> get_metadata tok w \<noteq> Inl (HTTPException 404 ''Token not found''))
   \<and> HTTPException 404 ''Token not found'' \<noteq> IntegrityError
   \<and> HTTPException 404 ''Token not found'' \<noteq> HTTPException 500 ''Decryption failed''"
  by (auto simp: decrypt_def post_decrypt_def require_admin_def get_metadata_def
        get_token_record_def split: sum.splits)

theorem unknown_token_not_found_witness:
  "tokens empty_world (lit ''does-not-exist'') = None
   \<and> decrypt stub_platform test_config (lit ''does-not-exist'') empty_world
       = Inl (HTTPException 404 ''Token not found'')
   \<and> get_metadata (lit ''does-not-exist'') empty_world
       = Inl (HTTPException 404 ''Token not found'')
   \<and> tokens (world_with sample_row) (lit ''tok-1'') \<noteq> None
   \<and> get_metadata (lit ''tok-1'') (world_with sample_row)
       \<noteq> Inl (HTTPException 404 ''Token not found'')"
proof -
  have a: "tokens empty_world (lit ''does-not-exist'') = None" by (simp add: empty_world_def)
  have b: "tokens (world_with sample_row) (lit ''tok-1'') \<noteq> None" by (simp add: world_with_def)
  show ?thesis
    using unknown_token_not_found [of empty_world "lit ''does-not-exist''" stub_platform test_config]
      unknown_token_not_found [of "world_with sample_row" "lit ''tok-1''" stub_platform test_config]
      a b by blast
qed

section \<open>The metadata path\<close>

text \<open>
  C5. For a stored token the metadata path returns the token, the masked PAN and the time
  of creation, and nothing else. Two states whose rows for the token agree on the first
  six digits, the last four, the length and the time of creation give the same response,
  whatever their ciphertexts and nonces are.
\<close>

theorem metadata_shows_mask_only:
  assumes "tokens w1 tok = Some r1" and "tokens w2 tok = Some r2"
    and "r_first6 r1 = r_first6 r2" and "r_last4 r1 = r_last4 r2"
    and "r_pan_length r1 = r_pan_length r2" and "r_created_at r1 = r_created_at r2"
  shows "get_metadata tok w1 = get_metadata tok w2
       \<and> get_metadata tok w1 =
           Inr \<lparr>tm_token = tok,
                tm_masked_pan = mask_pan (r_first6 r1) (r_last4 r1) (r_pan_length r1),
                tm_created_at = r_created_at r1\<rparr>"
  using assms by (simp add: get_metadata_def get_token_record_def)

theorem metadata_shows_mask_only_witness:
  "tokens (world_with sample_row) (lit ''tok-1'') = Some sample_row
   \<and> tokens (world_with other_row) (lit ''tok-1'') = Some other_row
   \<and> r_ciphertext sample_row \<noteq> r_ciphertext other_row
   \<and> get_metadata (lit ''tok-1'') (world_with sample_row)
       = get_metadata (lit ''tok-1'') (world_with other_row)
   \<and> get_metadata (lit ''tok-1'') (world_with sample_row)
       = Inr \<lparr>tm_token = lit ''tok-1'', tm_masked_pan = lit ''411111******1111'',
              tm_created_at = lit ''2024-01-01T00:00:00''\<rparr>"
proof -
  have a: "tokens (world_with sample_row) (lit ''tok-1'') = Some sample_row"
    "tokens (world_with other_row) (lit ''tok-1'') = Some other_row"
    by (simp_all add: world_with_def)
  have b: "r_first6 sample_row = r_first6 other_row" "r_last4 sample_row = r_last4 other_row"
    "r_pan_length sample_row = r_pan_length other_row"
    "r_created_at sample_row = r_created_at other_row"
    by (simp_all add: other_row_def)
  have c: "r_ciphertext sample_row \<noteq> r_ciphertext other_row"
    by (simp add: other_row_def sample_row_def)
  have d: "mask_pan (r_first6 sample_row) (r_last4 sample_row) (r_pan_length sample_row)
           = lit ''411111******1111''"
    by (simp add: sample_row_def mask_pan_def str_times_def lit_def eval_nat_numeral)
  have e: "r_created_at sample_row = lit ''2024-01-01T00:00:00''" by (simp add: sample_row_def)
  show ?thesis using metadata_shows_mask_only [OF a b] a c unfolding d e by blast
qed

section \<open>Failed decryption\<close>

text \<open>
  C7. For a stored row whose decryption the cipher refuses, whatever exception the cipher
  raises, the privileged path fails with one and the same generic error, which carries
  nothing of that exception. With the row found, this is the only error of the path, and a
  response is returned only with the decoding of a plaintext that the cipher authenticated:
  never a partial or corrupted one.
\<close>

theorem failed_decryption_is_generic:
  assumes "tokens w tok = Some r"
  shows "(\<forall>e. AESGCM_decrypt P (MASTER_KEY cfg) (r_nonce r) (r_ciphertext r) None = Inl e \<longrightarrow>
            decrypt P cfg tok w = Inl (HTTPException 500 ''Decryption failed''))
       \<and> (\<forall>e. decrypt P cfg tok w = Inl e \<longrightarrow> e = HTTPException 500 ''Decryption failed'')
       \<and> (\<forall>resp. decrypt P cfg tok w = Inr resp \<longrightarrow>
            (\<exists>pt. AESGCM_decrypt P (MASTER_KEY cfg) (r_nonce r) (r_ciphertext r) None = Inr pt
                  \<and> decode_utf8 pt = Inr (dr_pan resp)))"
  using assms
  by (auto simp: decrypt_def get_token_record_def decrypt_pan_bytes_def
        split: sum.splits option.splits)

theorem failed_decryption_is_generic_witness:
  "tokens (world_with tampered_row) (lit ''tok-1'') = Some tampered_row
   \<and> AESGCM_decrypt stub_platform (MASTER_KEY test_config) (r_nonce tampered_row)
        (r_ciphertext tampered_row) None = Inl InvalidTag
   \<and> decrypt stub_platform test_config (lit ''tok-1'') (world_with tampered_row)
       = Inl (HTTPException 500 ''Decryption failed'')"
proof -
  have a: "tokens (world_with tampered_row) (lit ''tok-1'') = Some tampered_row"
    by (simp add: world_with_def)
  have b: "AESGCM_decrypt stub_platform (MASTER_KEY test_config) (r_nonce tampered_row)
        (r_ciphertext tampered_row) None = Inl InvalidTag"
    by (simp add: stub_platform_def stub_decrypt_def stub_tag_def test_config_def
          tampered_row_def sample_row_def sum_list_replicate)
  show ?thesis
    using failed_decryption_is_generic [OF a, of stub_platform test_config] a b by blast
qed

section \<open>The master key at start-up\<close>

text \<open>
  C8. The length of the master key is checked when the configuration is loaded: loading
  succeeds only with a key of 16, 24 or 32 bytes, decoded from the hexadecimal setting; a
  setting that decodes to a key of one of these lengths is accepted, and one that decodes
  to any other length makes start-up exit. After a successful start-up, on a platform that
  meets its contract, the encryption helper returns a nonce and a ciphertext for every
  plaintext: no key error is left for call time.
\<close>

theorem master_key_validated_at_startup:
  "(\<forall>k. load_MASTER_KEY env = Inr k \<longrightarrow>
       length k \<in> {16, 24, 32} \<and> (\<exists>h. env = Some h \<and> unhexlify h = Some k))
   \<and> (\<forall>h k. env = Some h \<and> unhexlify h = Some k \<and> length k \<in> {16, 24, 32} \<longrightarrow>
          load_MASTER_KEY env = Inr k)
   \<and> (\<forall>h k. env = Some h \<and> unhexlify h = Some k \<and> length k \<notin> {16, 24, 32} \<longrightarrow>
          (\<exists>msg. load_MASTER_KEY env = Inl (SystemExit msg)))
   \<and> (\<forall>k (P::platform) (cfg::config) pt w. load_MASTER_KEY env = Inr k \<and> platform_ok P \<and> MASTER_KEY cfg = k \<longrightarrow>
          (\<exists>nce ct. fst (encrypt_pan_bytes P cfg pt w) = Inr (nce, ct)))"
proof -
  have a: "\<forall>k. load_MASTER_KEY env = Inr k \<longrightarrow>
       length k \<in> {16, 24, 32} \<and> (\<exists>h. env = Some h \<and> unhexlify h = Some k)"
    by (auto simp: load_MASTER_KEY_def split: option.splits if_splits)
  have b: "\<forall>h k. env = Some h \<and> unhexlify h = Some k \<and> length k \<in> {16, 24, 32} \<longrightarrow>
          load_MASTER_KEY env = Inr k"
    by (auto simp: load_MASTER_KEY_def)
  have c: "\<forall>h k. env = Some h \<and> unhexlify h = Some k \<and> length k \<notin> {16, 24, 32} \<longrightarrow>
          (\<exists>msg. load_MASTER_KEY env = Inl (SystemExit msg))"
    by (auto simp: load_MASTER_KEY_def)
  have d: "\<forall>k (P::platform) (cfg::config) pt w. load_MASTER_KEY env = Inr k \<and> platform_ok P \<and> MASTER_KEY cfg = k \<longrightarrow>
          (\<exists>nce ct. fst (encrypt_pan_bytes P cfg pt w) = Inr (nce, ct))"
  proof (intro allI impI)
    fix k and P :: platform and cfg :: config and pt w
    assume h: "load_MASTER_KEY env = Inr k \<and> platform_ok P \<and> MASTER_KEY cfg = k"
    with a have l: "length (MASTER_KEY cfg) \<in> {16, 24, 32}" by blast
    from h have p: "platform_ok P" by blast
    from encrypt_pan_bytes_ok [OF p l]
    show "\<exists>nce ct. fst (encrypt_pan_bytes P cfg pt w) = Inr (nce, ct)" by (metis fst_conv)
  qed
  from a b c d show ?thesis by blast
qed

theorem master_key_validated_at_startup_witness:
  "(\<exists>msg. load_MASTER_KEY (Some (lit ''00010203040506070809'')) = Inl (SystemExit msg))
   \<and> load_MASTER_KEY
        (Some (lit ''000102030405060708090a0b0c0d0e0f101112131415161718191A1B1C1D1E1F''))
       = Inr (map of_nat [0, 1, 2, 3, 4, 5, 6, 7, 8, 9, 10, 11, 12, 13, 14, 15, 16, 17, 18,
                          19, 20, 21, 22, 23, 24, 25, 26, 27, 28, 29, 30, 31])"
proof -
  have a: "unhexlify (lit ''00010203040506070809'')
           = Some (map of_nat [0, 1, 2, 3, 4, 5, 6, 7, 8, 9])"
    by (simp add: lit_def hex_val_def)
  have a': "length (map of_nat [0, 1, 2, 3, 4, 5, 6, 7, 8, 9 :: nat] :: bytes) \<notin> {16, 24, 32}"
    by simp
  have b: "unhexlify (lit ''000102030405060708090a0b0c0d0e0f101112131415161718191A1B1C1D1E1F'')
           = Some (map of_nat [0, 1, 2, 3, 4, 5, 6, 7, 8, 9, 10, 11, 12, 13, 14, 15, 16, 17, 18,
                          19, 20, 21, 22, 23, 24, 25, 26, 27, 28, 29, 30, 31])"
    by (simp add: lit_def hex_val_def)
  have b': "length (map of_nat [0, 1, 2, 3, 4, 5, 6, 7, 8, 9, 10, 11, 12, 13, 14, 15, 16, 17, 18,
                          19, 20, 21, 22, 23, 24, 25, 26, 27, 28, 29, 30, 31 :: nat] :: bytes)
             \<in> {16, 24, 32}"
    by simp
  from master_key_validated_at_startup [of "Some (lit ''00010203040506070809'')"] a a'
  have c: "\<exists>msg. load_MASTER_KEY (Some (lit ''00010203040506070809'')) = Inl (SystemExit msg)"
    by blast
  from master_key_validated_at_startup
        [of "Some (lit ''000102030405060708090a0b0c0d0e0f101112131415161718191A1B1C1D1E1F'')"]
       b b'
  have d: "load_MASTER_KEY
        (Some (lit ''000102030405060708090a0b0c0d0e0f101112131415161718191A1B1C1D1E1F''))
       = Inr (map of_nat [0, 1, 2, 3, 4, 5, 6, 7, 8, 9, 10, 11, 12, 13, 14, 15, 16, 17, 18,
                          19, 20, 21, 22, 23, 24, 25, 26, 27, 28, 29, 30, 31])"
    by blast
  from c d show ?thesis by blast
qed
section \<open>A token that is already in the table\<close>

lemma token_urlsafe_tokens: "tokens (snd (token_urlsafe n w)) = tokens w"
  by (simp add: token_urlsafe_snd)

lemma token_bytes_tokens: "tokens (snd (token_bytes n w)) = tokens w"
  by (simp add: token_bytes_snd)

lemma insert_retrying_second:
  assumes "tokens w (fst (token_urlsafe 24 w)) = Some r"
    and "tokens w (fst (token_urlsafe 24 (snd (token_urlsafe 24 w)))) = None"
  shows "fst (insert_retrying (Suc (Suc k)) nce ct n f6 l4 w)
         = Inr (fst (token_urlsafe 24 (snd (token_urlsafe 24 w))))"
  using assms
  by (simp add: save_token_def split_beta Let_def token_urlsafe_tokens)

lemma Tokenize_spec_second:
  assumes "platform_ok P" "length (MASTER_KEY cfg) \<in> {16, 24, 32}" "isdigit P pan"
    and "tokens w (fst (token_urlsafe 24 (snd (token_bytes 12 w)))) = Some r"
    and "tokens w (fst (token_urlsafe 24 (snd (token_urlsafe 24 (snd (token_bytes 12 w))))))
         = None"
  shows "fst (Tokenize_spec (Suc (Suc k)) P cfg pan w)
         = Inr \<lparr>er_token = fst (token_urlsafe 24 (snd (token_urlsafe 24 (snd (token_bytes 12 w))))),
                er_masked_pan = mask_pan (take 6 pan) (drop (length pan - 4) pan)
                                  (int (length pan))\<rparr>"
proof -
  from decode_encode_utf8 [OF isdigit_scalar [OF assms(1,3)]]
  obtain pt where pt: "encode_utf8 pan = Inr pt" by blast
  from encrypt_pan_bytes_ok [OF assms(1,2), of pt w]
  obtain ct where ct:
    "encrypt_pan_bytes P cfg pt w = (Inr (map (entropy w) [0..<12], ct), snd (token_bytes 12 w))"
    by blast
  have i: "fst (insert_retrying (Suc (Suc k)) (map (entropy w) [0..<12]) ct (int (length pan))
                 (take 6 pan) (drop (length pan - 4) pan) (snd (token_bytes 12 w)))
           = Inr (fst (token_urlsafe 24 (snd (token_urlsafe 24 (snd (token_bytes 12 w))))))"
    using assms(4,5) by (intro insert_retrying_second [where r = r]) (simp_all add: token_bytes_tokens)
  show ?thesis
    using assms(3) i
    by (simp add: Tokenize_spec_def pt ct Let_def split_beta split: sum.splits)
qed

lemma collision_tokens:
  "fst (token_urlsafe 24 (snd (token_bytes 12 collision_world)))
     = lit ''DA0ODxAREhMUFRYXGBkaGxwdHh8gISIj''"
  "fst (token_urlsafe 24 (snd (token_urlsafe 24 (snd (token_bytes 12 collision_world)))))
     = lit ''JCUmJygpKissLS4vMDEyMzQ1Njc4OTo7''"
  by (simp_all add: token_urlsafe_def token_bytes_def collision_world_def empty_world_def
        upt_rec b64_alphabet_def rstrip_eq_def lit_def)
lemma collision_facts:
  "platform_ok stub_platform" "length (MASTER_KEY test_config) \<in> {16, 24, 32}"
  "isdigit stub_platform (lit ''4111111111111111'')"
  "tokens collision_world (lit ''DA0ODxAREhMUFRYXGBkaGxwdHh8gISIj'') = Some sample_row"
  "tokens collision_world (lit ''JCUmJygpKissLS4vMDEyMzQ1Njc4OTo7'') = None"
  "12 \<le> length (lit ''4111111111111111'')" "length (lit ''4111111111111111'') \<le> 19"
  "list_all is_scalar (lit ''4111111111111111'')"
  by (rule platform_ok_stub)
     (simp_all add: test_config_def isdigit_def stub_platform_def digit_table_def lit_def
        collision_world_def is_scalar_def)


text \<open>
  C4, as the code has it. When the generated token is already in the table, the
  tokenization fails with the integrity error of the insert. No second token is generated
  and the insert is not tried again: the table is unchanged and exactly the 12 bytes of the
  nonce and the 24 bytes of one token have been drawn from the random source.
\<close>

theorem duplicate_token_fails_without_retry:
  assumes "platform_ok P" and "length (MASTER_KEY cfg) \<in> {16, 24, 32}" and "isdigit P pan"
    and "tokens w (fst (token_urlsafe 24 (snd (token_bytes 12 w)))) = Some r"
  shows "fst (encrypt P cfg pan w) = Inl IntegrityError
       \<and> tokens (snd (encrypt P cfg pan w)) = tokens w
       \<and> entropy (snd (encrypt P cfg pan w)) = (\<lambda>i. entropy w (i + 36))"
proof -
  from encrypt_shape [OF assms(1-3), of w] obtain ct where
    e: "encrypt P cfg pan w =
               (let w1 = snd (token_bytes 12 w);
                    tok = fst (token_urlsafe 24 w1);
                    w2 = snd (token_urlsafe 24 w1)
                in case tokens w tok of
                     Some _ \<Rightarrow> (Inl IntegrityError, w2)
                   | None \<Rightarrow>
                      (Inr \<lparr>er_token = tok,
                            er_masked_pan = mask_pan (take 6 pan) (drop (length pan - 4) pan)
                                              (int (length pan))\<rparr>,
                       w2\<lparr>tokens := (tokens w)(tok \<mapsto>
                            \<lparr>r_token = tok, r_ciphertext = ct,
                             r_nonce = map (entropy w) [0..<12],
                             r_pan_length = int (length pan), r_first6 = take 6 pan,
                             r_last4 = drop (length pan - 4) pan,
                             r_created_at = utcnow w\<rparr>)\<rparr>))"
    by blast
  show ?thesis using assms(4)
    by (simp add: e Let_def token_bytes_snd token_urlsafe_snd add.commute add.left_commute)
qed

theorem duplicate_token_fails_without_retry_witness:
  "platform_ok stub_platform \<and> length (MASTER_KEY test_config) \<in> {16, 24, 32}
   \<and> isdigit stub_platform (lit ''4111111111111111'')
   \<and> tokens collision_world (fst (token_urlsafe 24 (snd (token_bytes 12 collision_world))))
       = Some sample_row
   \<and> fst (encrypt stub_platform test_config (lit ''4111111111111111'') collision_world)
       = Inl IntegrityError
   \<and> tokens (snd (encrypt stub_platform test_config (lit ''4111111111111111'') collision_world))
       = tokens collision_world"
proof -
  have t: "tokens collision_world (fst (token_urlsafe 24 (snd (token_bytes 12 collision_world))))
           = Some sample_row"
    by (simp only: collision_tokens collision_facts)
  show ?thesis
    using duplicate_token_fails_without_retry [OF collision_facts(1-3) t] collision_facts(1-3) t
    by blast
qed


text \<open>
  C4, as the specification states it, does not hold of the code. In a state whose table
  holds the first token the random source yields while the second one is free, the
  specification's insert with retry returns the second token; the handler of the code
  fails with the integrity error.
\<close>

theorem retry_on_duplicate_counterexample:
  "fst (post_encrypt stub_platform test_config (lit ''4111111111111111'') collision_world)
     = Inl IntegrityError
   \<and> fst (Tokenize_spec 3 stub_platform test_config (lit ''4111111111111111'') collision_world)
     = Inr \<lparr>er_token = lit ''JCUmJygpKissLS4vMDEyMzQ1Njc4OTo7'',
            er_masked_pan = lit ''411111******1111''\<rparr>"
proof -
  have t1: "tokens collision_world (fst (token_urlsafe 24 (snd (token_bytes 12 collision_world))))
           = Some sample_row"
    by (simp only: collision_tokens collision_facts)
  have t2: "tokens collision_world
              (fst (token_urlsafe 24 (snd (token_urlsafe 24 (snd (token_bytes 12 collision_world))))))
           = None"
    by (simp only: collision_tokens collision_facts)
  have p: "post_encrypt stub_platform test_config (lit ''4111111111111111'') collision_world
           = encrypt stub_platform test_config (lit ''4111111111111111'') collision_world"
    using collision_facts(6-8) by (simp add: post_encrypt_def EncryptRequest_def)
  from encrypt_shape [OF collision_facts(1-3), of collision_world] t1
  have a: "fst (encrypt stub_platform test_config (lit ''4111111111111111'') collision_world)
           = Inl IntegrityError"
    by (auto simp: Let_def)
  have m: "mask_pan (take 6 (lit ''4111111111111111''))
             (drop (length (lit ''4111111111111111'') - 4) (lit ''4111111111111111''))
             (int (length (lit ''4111111111111111''))) = lit ''411111******1111''"
    by (simp add: mask_pan_def str_times_def lit_def eval_nat_numeral)
  have "(3::nat) = Suc (Suc 1)" by simp
  with Tokenize_spec_second [OF collision_facts(1-3) t1 t2, of 1]
  have b: "fst (Tokenize_spec 3 stub_platform test_config (lit ''4111111111111111'') collision_world)
     = Inr \<lparr>er_token = lit ''JCUmJygpKissLS4vMDEyMzQ1Njc4OTo7'',
            er_masked_pan = lit ''411111******1111''\<rparr>"
    by (simp only: collision_tokens m)
  from a b show ?thesis by (simp only: p simp_thms)
qed

end
